theory Spec2Isabelle
  imports Main "HOL-Library.Word"
begin

section \<open>Data model of the Google Drive connector (main.py)\<close>

text \<open>
  Python values as they occur in main.py.  A Python \<open>str\<close> is a sequence of Unicode
  code points, \<open>bytes\<close> a sequence of octets.  String literals of the source are
  written with \<open>lit\<close>, which maps each ASCII character to its code point.
\<close>

type_synonym byte = "8 word"
type_synonym pystr = "nat list"

definition lit :: "string \<Rightarrow> pystr" where
  "lit s = map of_char s"

text \<open>The single quote character, as a one-character string.\<close>

definition quote :: pystr where
  "quote = [39]"

text \<open>The literal \<^verbatim>\<open>"\n"\<close>.\<close>

definition newline :: pystr where
  "newline = [10]"

text \<open>
  The exceptions that reach the code of main.py.
  \<^item> \<open>HTTPException status_code detail\<close> is fastapi's exception, raised by main.py itself;
  \<^item> \<open>HttpError m\<close> is googleapiclient's error, \<open>m\<close> being the text \<open>str(e)\<close> gives;
  \<^item> \<open>ValueError m\<close>, \<open>KeyError k\<close> and \<open>AttributeError m\<close> are Python's own;
  \<^item> \<open>UnicodeDecodeError bs\<close> is raised by \<open>bs.decode('utf-8')\<close>;
  \<^item> \<open>LibraryError m\<close> is any other subclass of \<open>Exception\<close> raised inside a library
    call, \<open>m\<close> being the text \<open>str(e)\<close> gives.
\<close>

datatype exn =
    HTTPException int pystr
  | HttpError pystr
  | ValueError pystr
  | KeyError pystr
  | AttributeError pystr
  | UnicodeDecodeError "byte list"
  | LibraryError pystr

datatype FileInfo = FileInfo pystr pystr

datatype FileContent = FileContent pystr pystr pystr

text \<open>
  \<open>MediaIoBaseDownload(fh, request)\<close>: the outcome of the k-th call of
  \<open>next_chunk()\<close> (k = 0, 1, ...) is either the exception it raises or the bytes it
  appends to \<open>fh\<close> together with the flag \<open>done\<close> it returns.
\<close>

type_synonym downloader = "nat \<Rightarrow> exn + (byte list \<times> bool)"

text \<open>
  The client object \<open>build('drive', 'v3', credentials=...)\<close> returns, reduced to the
  four requests main.py sends:
  \<^item> \<open>files_list q fields\<close> is \<open>files().list(q=..., fields=...).execute()\<close>; the result
    is the entry of the response dictionary under the key \<open>'files'\<close>, if there is one,
    each file being a dictionary;
  \<^item> \<open>files_get fileId\<close> is \<open>files().get(fileId=...).execute()\<close>, a dictionary;
  \<^item> \<open>export_media fileId mimeType\<close> and \<open>get_media fileId\<close> are the requests handed
    to \<open>MediaIoBaseDownload\<close>.
\<close>

record drive_api =
  files_list :: "pystr \<Rightarrow> pystr \<Rightarrow> exn + (pystr \<rightharpoonup> pystr) list option"
  files_get :: "pystr \<Rightarrow> exn + (pystr \<rightharpoonup> pystr)"
  export_media :: "pystr \<Rightarrow> pystr \<Rightarrow> downloader"
  get_media :: "pystr \<Rightarrow> downloader"

text \<open>The fields of a \<open>DriveService\<close> object: \<open>self.service\<close> and \<open>self.folder_id\<close>.\<close>

record DriveService =
  service :: "drive_api option"
  folder_id :: pystr

text \<open>
  What main.py reads from outside: the process environment, the file system, and the
  library functions it calls.  \<open>'cred\<close> is the type of credential objects, \<open>'json\<close> the
  type of parsed JSON values; \<open>page\<close> is a page of a parsed PDF, identified with the
  outcome of its \<open>extract_text()\<close>.  \<open>lib_str\<close> is \<open>str(e)\<close> for the exceptions whose
  text a library defines.
\<close>

type_synonym page = "exn + pystr"

record ('cred, 'json) world =
  getenv :: "pystr \<Rightarrow> pystr option"
  path_exists :: "pystr \<Rightarrow> bool"
  from_service_account_file :: "pystr \<Rightarrow> pystr list \<Rightarrow> exn + 'cred"
  json_loads :: "pystr \<Rightarrow> exn + 'json"
  from_service_account_info :: "'json \<Rightarrow> pystr list \<Rightarrow> exn + 'cred"
  build :: "pystr \<Rightarrow> pystr \<Rightarrow> 'cred \<Rightarrow> exn + drive_api"
  PdfReader :: "byte list \<Rightarrow> exn + page list"
  lib_str :: "exn \<Rightarrow> pystr"

section \<open>Python built-ins used by main.py\<close>

text \<open>
  The message of the \<open>AttributeError\<close> that \<open>self.service.files()\<close> raises when
  \<open>self.service\<close> is \<open>None\<close>.
\<close>

definition no_attribute_files :: pystr where
  "no_attribute_files =
     quote @ lit ''NoneType'' @ quote @ lit '' object has no attribute '' @
     quote @ lit ''files'' @ quote"

text \<open>Truth value of an \<open>Optional[str]\<close>: \<open>None\<close> and \<open>''\<close> are false.\<close>

fun truthy :: "pystr option \<Rightarrow> bool" where
  "truthy None = False"
| "truthy (Some s) = (s \<noteq> [])"

text \<open>\<open>s.startswith(p)\<close>.\<close>

definition startswith :: "pystr \<Rightarrow> pystr \<Rightarrow> bool" where
  "startswith s p = (take (length p) s = p)"

text \<open>
  \<open>str(e)\<close>.  A \<open>ValueError\<close> or \<open>AttributeError\<close> built from one message prints as
  that message; a
  \<open>KeyError\<close> prints as the \<open>repr\<close> of the key, which for the keys main.py uses
  (no quote, no escape) is the key between single quotes.
\<close>

fun str_exc :: "('cred, 'json) world \<Rightarrow> exn \<Rightarrow> pystr" where
  "str_exc w (ValueError m) = m"
| "str_exc w (HttpError m) = m"
| "str_exc w (LibraryError m) = m"
| "str_exc w (AttributeError m) = m"
| "str_exc w (KeyError k) = quote @ k @ quote"
| "str_exc w e = lib_str w e"

text \<open>
  \<open>str.isspace\<close> on one code point (CPython's \<open>_PyUnicode_IsWhitespace\<close>), and
  \<open>s.strip()\<close>, which removes those code points from both ends.
\<close>

definition isspace :: "nat \<Rightarrow> bool" where
  "isspace c \<longleftrightarrow>
     (0x09 \<le> c \<and> c \<le> 0x0D) \<or> (0x1C \<le> c \<and> c \<le> 0x20) \<or> c = 0x85 \<or> c = 0xA0 \<or>
     c = 0x1680 \<or> (0x2000 \<le> c \<and> c \<le> 0x200A) \<or> c = 0x2028 \<or> c = 0x2029 \<or>
     c = 0x202F \<or> c = 0x205F \<or> c = 0x3000"

definition strip :: "pystr \<Rightarrow> pystr" where
  "strip s = rev (dropWhile isspace (rev (dropWhile isspace s)))"

text \<open>
  \<open>bs.decode('utf-8')\<close> with strict error handling: one to four bytes per code point,
  no overlong forms, no surrogates, nothing above U+10FFFF.
\<close>

definition cont :: "byte \<Rightarrow> bool" where
  "cont b \<longleftrightarrow> 0x80 \<le> unat b \<and> unat b \<le> 0xBF"

definition low6 :: "byte \<Rightarrow> nat" where
  "low6 b = unat b - 0x80"

fun utf8 :: "byte list \<Rightarrow> pystr option" where
  "utf8 [] = Some []"
| "utf8 (b # bs) =
     (let n = unat b in
      if n < 0x80 then map_option ((#) n) (utf8 bs)
      else if 0xC2 \<le> n \<and> n \<le> 0xDF then
        (case bs of
           b1 # r \<Rightarrow>
             if cont b1 then map_option ((#) ((n - 0xC0) * 64 + low6 b1)) (utf8 r)
             else None
         | _ \<Rightarrow> None)
      else if 0xE0 \<le> n \<and> n \<le> 0xEF then
        (case bs of
           b1 # b2 # r \<Rightarrow>
             (let c = ((n - 0xE0) * 64 + low6 b1) * 64 + low6 b2 in
              if cont b1 \<and> cont b2 \<and> 0x800 \<le> c \<and> \<not> (0xD800 \<le> c \<and> c \<le> 0xDFFF)
              then map_option ((#) c) (utf8 r) else None)
         | _ \<Rightarrow> None)
      else if 0xF0 \<le> n \<and> n \<le> 0xF4 then
        (case bs of
           b1 # b2 # b3 # r \<Rightarrow>
             (let c = (((n - 0xF0) * 64 + low6 b1) * 64 + low6 b2) * 64 + low6 b3 in
              if cont b1 \<and> cont b2 \<and> cont b3 \<and> 0x10000 \<le> c \<and> c \<le> 0x10FFFF
              then map_option ((#) c) (utf8 r) else None)
         | _ \<Rightarrow> None)
      else None)"

definition decode_utf8 :: "byte list \<Rightarrow> exn + pystr" where
  "decode_utf8 bs = (case utf8 bs of None \<Rightarrow> Inl (UnicodeDecodeError bs) | Some s \<Rightarrow> Inr s)"

section \<open>The chunked download loop\<close>

text \<open>
  Each of the five download methods of \<open>DriveService\<close> contains the same loop:
  \<^verbatim>\<open>
  fh = io.BytesIO()
  downloader = MediaIoBaseDownload(fh, request)
  done = False
  while done is False:
      status, done = downloader.next_chunk()
  \<close>
  \<open>download_loop d k fh\<close> is the loop about to make call number \<open>k\<close> with buffer
  \<open>fh\<close>; the result is \<open>None\<close> when the loop runs forever, otherwise the exception
  that left the loop or the final value of \<open>fh.getvalue()\<close>.
\<close>

partial_function (option) download_loop ::
  "downloader \<Rightarrow> nat \<Rightarrow> byte list \<Rightarrow> (exn + byte list) option" where
  "download_loop d k fh =
     (case d k of
        Inl e \<Rightarrow> Some (Inl e)
      | Inr (bs, done) \<Rightarrow>
          if done then Some (Inr (fh @ bs)) else download_loop d (Suc k) (fh @ bs))"

declare download_loop.simps [code]

definition download :: "downloader \<Rightarrow> (exn + byte list) option" where
  "download d = download_loop d 0 []"

text \<open>
  A provider that delivers the chunks \<open>cs\<close> one per call and reports \<open>done\<close> with the
  last one; with no chunk at all, the first call delivers nothing and reports \<open>done\<close>.
\<close>

definition chunked :: "byte list list \<Rightarrow> downloader" where
  "chunked cs k =
     (if k < length cs then Inr (cs ! k, Suc k = length cs) else Inr ([], True))"

section \<open>The handlers of exceptions\<close>

text \<open>
  \<^verbatim>\<open>except HttpError as e: raise HTTPException(status_code=400, detail=f"<prefix>{str(e)}")\<close>
  around a block with outcome \<open>r\<close>: every other exception passes through.
\<close>

fun except_HttpError :: "('cred, 'json) world \<Rightarrow> pystr \<Rightarrow> exn + 'a \<Rightarrow> exn + 'a" where
  "except_HttpError w prefix (Inl (HttpError m)) =
     Inl (HTTPException 400 (prefix @ str_exc w (HttpError m)))"
| "except_HttpError w prefix r = r"

text \<open>
  \<^verbatim>\<open>except Exception as e: raise HTTPException(status_code=500, detail=f"<prefix>{str(e)}")\<close>
  around a block with outcome \<open>r\<close>.
\<close>

fun except_Exception :: "('cred, 'json) world \<Rightarrow> pystr \<Rightarrow> exn + 'a \<Rightarrow> exn + 'a" where
  "except_Exception w prefix (Inl e) = Inl (HTTPException 500 (prefix @ str_exc w e))"
| "except_Exception w prefix (Inr v) = Inr v"

section \<open>class DriveService\<close>

text \<open>
  \<open>DriveService.__init__\<close>.  \<open>the\<close> is applied to the value of a variable only where
  the source has already tested that it is not \<open>None\<close>.
\<close>

definition DriveService_init :: "('cred, 'json) world \<Rightarrow> exn + DriveService" where
  "DriveService_init w =
     (let folder = getenv w (lit ''GDRIVE_FOLDER_ID'') in
      if \<not> truthy folder
      then Inl (ValueError (lit ''GDRIVE_FOLDER_ID environment variable is required''))
      else Inr \<lparr>service = None, folder_id = the folder\<rparr>)"

definition scopes :: "pystr list" where
  "scopes = [lit ''https://www.googleapis.com/auth/drive.readonly'']"

text \<open>
  The \<open>try\<close> block of \<open>DriveService.authenticate\<close>: the client it assigns to
  \<open>self.service\<close> before returning, or the exception that leaves the block.
\<close>

definition authenticate_try :: "('cred, 'json) world \<Rightarrow> exn + drive_api" where
  "authenticate_try w =
     (let credentials_path = getenv w (lit ''GOOGLE_APPLICATION_CREDENTIALS'') in
      if truthy credentials_path \<and> path_exists w (the credentials_path) then
        (case from_service_account_file w (the credentials_path) scopes of
           Inl e \<Rightarrow> Inl e
         | Inr credentials \<Rightarrow> build w (lit ''drive'') (lit ''v3'') credentials)
      else
        (let credentials_json = getenv w (lit ''GOOGLE_SERVICE_ACCOUNT_JSON'') in
         if truthy credentials_json then
           (case json_loads w (the credentials_json) of
              Inl e \<Rightarrow> Inl e
            | Inr credentials_info \<Rightarrow>
                (case from_service_account_info w credentials_info scopes of
                   Inl e \<Rightarrow> Inl e
                 | Inr credentials \<Rightarrow> build w (lit ''drive'') (lit ''v3'') credentials))
         else
           Inl (ValueError (lit (''No valid Google credentials found. '' @
             ''Set GOOGLE_APPLICATION_CREDENTIALS or GOOGLE_SERVICE_ACCOUNT_JSON'')))))"

text \<open>
  \<open>DriveService.authenticate\<close>: the object after the call, or the exception raised
  (the object is then as it was).
\<close>

definition DriveService_authenticate ::
  "('cred, 'json) world \<Rightarrow> DriveService \<Rightarrow> exn + DriveService" where
  "DriveService_authenticate w self =
     (case except_Exception w (lit ''Authentication failed: '') (authenticate_try w) of
        Inl e \<Rightarrow> Inl e
      | Inr svc \<Rightarrow> Inr (self\<lparr>service := Some svc\<rparr>))"

text \<open>\<open>if not self.service: self.authenticate()\<close>, the first statement of both operations.\<close>

definition ensure_service ::
  "('cred, 'json) world \<Rightarrow> DriveService \<Rightarrow> exn + DriveService" where
  "ensure_service w self =
     (if service self = None then DriveService_authenticate w self else Inr self)"

text \<open>\<open>[FileInfo(id=file['id'], name=file['name']) for file in files]\<close>.\<close>

fun file_infos :: "(pystr \<rightharpoonup> pystr) list \<Rightarrow> exn + FileInfo list" where
  "file_infos [] = Inr []"
| "file_infos (file # files) =
     (case file (lit ''id'') of
        None \<Rightarrow> Inl (KeyError (lit ''id''))
      | Some i \<Rightarrow>
          (case file (lit ''name'') of
             None \<Rightarrow> Inl (KeyError (lit ''name''))
           | Some n \<Rightarrow>
               (case file_infos files of
                  Inl e \<Rightarrow> Inl e
                | Inr infos \<Rightarrow> Inr (FileInfo i n # infos))))"

text \<open>The query string \<^verbatim>\<open>f"'{self.folder_id}' in parents and trashed=false"\<close>.\<close>

definition query :: "pystr \<Rightarrow> pystr" where
  "query folder = quote @ folder @ quote @ lit '' in parents and trashed=false''"

text \<open>The \<open>try\<close> block of \<open>DriveService.list_files\<close>.\<close>

definition list_files_try :: "DriveService \<Rightarrow> exn + FileInfo list" where
  "list_files_try self =
     (case service self of
        None \<Rightarrow> Inl (AttributeError no_attribute_files)
      | Some svc \<Rightarrow>
          (case files_list svc (query (folder_id self)) (lit ''files(id, name, mimeType)'') of
             Inl e \<Rightarrow> Inl e
           | Inr results \<Rightarrow>
               (let files = (case results of None \<Rightarrow> [] | Some fs \<Rightarrow> fs) in
                file_infos files)))"

text \<open>
  \<open>DriveService.list_files\<close>: the value returned or the exception raised, and the
  object after the call.
\<close>

definition DriveService_list_files ::
  "('cred, 'json) world \<Rightarrow> DriveService \<Rightarrow> (exn + FileInfo list) \<times> DriveService" where
  "DriveService_list_files w self =
     (case ensure_service w self of
        Inl e \<Rightarrow> (Inl e, self)
      | Inr self' \<Rightarrow>
          (except_HttpError w (lit ''Error listing files: '') (list_files_try self'), self'))"

text \<open>
  The methods \<open>_export_google_doc\<close>, \<open>_export_google_sheet\<close>,
  \<open>_export_google_slides\<close> and \<open>_download_text_file\<close> (named here without the
  leading underscore) differ only in the request they build; after it each runs the
  download loop and returns \<open>fh.getvalue().decode('utf-8')\<close>, which is
  \<open>decode_download\<close>.  \<open>None\<close> is a download loop that runs forever.
\<close>

definition decode_download :: "downloader \<Rightarrow> (exn + pystr) option" where
  "decode_download d =
     (case download d of
        None \<Rightarrow> None
      | Some (Inl e) \<Rightarrow> Some (Inl e)
      | Some (Inr bs) \<Rightarrow> Some (decode_utf8 bs))"

definition export_google_doc :: "drive_api \<Rightarrow> pystr \<Rightarrow> (exn + pystr) option" where
  "export_google_doc svc file_id = decode_download (export_media svc file_id (lit ''text/plain''))"

definition export_google_sheet :: "drive_api \<Rightarrow> pystr \<Rightarrow> (exn + pystr) option" where
  "export_google_sheet svc file_id = decode_download (export_media svc file_id (lit ''text/csv''))"

definition export_google_slides :: "drive_api \<Rightarrow> pystr \<Rightarrow> (exn + pystr) option" where
  "export_google_slides svc file_id =
     decode_download (export_media svc file_id (lit ''text/plain''))"

definition download_text_file :: "drive_api \<Rightarrow> pystr \<Rightarrow> (exn + pystr) option" where
  "download_text_file svc file_id = decode_download (get_media svc file_id)"

text \<open>
  The loop of \<open>_extract_pdf_text\<close> over the pages, and the method itself:
  \<^verbatim>\<open>
  text = ""
  for page in pdf_reader.pages:
      text += page.extract_text() + "\n"
  return text.strip()
  \<close>
\<close>

fun extract_pages :: "page list \<Rightarrow> pystr \<Rightarrow> exn + pystr" where
  "extract_pages [] text = Inr text"
| "extract_pages (page # pages) text =
     (case page of
        Inl e \<Rightarrow> Inl e
      | Inr t \<Rightarrow> extract_pages pages (text @ (t @ newline)))"

definition extract_pdf_text ::
  "('cred, 'json) world \<Rightarrow> drive_api \<Rightarrow> pystr \<Rightarrow> (exn + pystr) option" where
  "extract_pdf_text w svc file_id =
     (case download (get_media svc file_id) of
        None \<Rightarrow> None
      | Some (Inl e) \<Rightarrow> Some (Inl e)
      | Some (Inr bs) \<Rightarrow>
          Some (case PdfReader w bs of
                  Inl e \<Rightarrow> Inl e
                | Inr pages \<Rightarrow>
                    (case extract_pages pages [] of
                       Inl e \<Rightarrow> Inl e
                     | Inr text \<Rightarrow> Inr (strip text))))"

text \<open>The \<open>try\<close> block of \<open>DriveService.get_file_content\<close>.\<close>

definition get_file_content_try ::
  "('cred, 'json) world \<Rightarrow> DriveService \<Rightarrow> pystr \<Rightarrow> (exn + FileContent) option" where
  "get_file_content_try w self file_id =
     (case service self of
        None \<Rightarrow> Some (Inl (AttributeError no_attribute_files))
      | Some svc \<Rightarrow>
     (case files_get svc file_id of
        Inl e \<Rightarrow> Some (Inl e)
      | Inr file_metadata \<Rightarrow>
     (case file_metadata (lit ''name'') of
        None \<Rightarrow> Some (Inl (KeyError (lit ''name'')))
      | Some file_name \<Rightarrow>
     (case file_metadata (lit ''mimeType'') of
        None \<Rightarrow> Some (Inl (KeyError (lit ''mimeType'')))
      | Some mime_type \<Rightarrow>
          map_option (map_sum id (FileContent file_id file_name))
            (if mime_type = lit ''application/vnd.google-apps.document'' then
               export_google_doc svc file_id
             else if mime_type = lit ''application/vnd.google-apps.spreadsheet'' then
               export_google_sheet svc file_id
             else if mime_type = lit ''application/vnd.google-apps.presentation'' then
               export_google_slides svc file_id
             else if mime_type = lit ''application/pdf'' then
               extract_pdf_text w svc file_id
             else if startswith mime_type (lit ''text/'') then
               download_text_file svc file_id
             else
               Some (Inl (HTTPException 400 (lit ''Unsupported file type: '' @ mime_type))))))))"

text \<open>
  \<open>DriveService.get_file_content\<close>: \<open>None\<close> when the call never returns, otherwise the
  value returned or the exception raised, and the object after the call.
\<close>

definition DriveService_get_file_content ::
  "('cred, 'json) world \<Rightarrow> DriveService \<Rightarrow> pystr \<Rightarrow>
     ((exn + FileContent) \<times> DriveService) option" where
  "DriveService_get_file_content w self file_id =
     (case ensure_service w self of
        Inl e \<Rightarrow> Some (Inl e, self)
      | Inr self' \<Rightarrow>
          map_option
            (\<lambda>r. (except_HttpError w (lit ''Error getting file content: '') r, self'))
            (get_file_content_try w self' file_id))"

section \<open>The application\<close>

text \<open>
  \<open>startup_event\<close>: an exception of \<open>drive_service.authenticate()\<close> is logged and
  dropped.  The result is the object \<open>drive_service\<close> after the hook.
\<close>

definition startup_event :: "('cred, 'json) world \<Rightarrow> DriveService \<Rightarrow> DriveService" where
  "startup_event w drive_service =
     (case DriveService_authenticate w drive_service of
        Inl e \<Rightarrow> drive_service
      | Inr drive_service' \<Rightarrow> drive_service')"

text \<open>
  Loading the module and starting the application: the statement
  \<open>drive_service = DriveService()\<close> at module level, then the startup hook.  The
  environment \<open>w\<close> is the one after \<open>load_dotenv()\<close>.  \<open>Inl e\<close> is
  an import that fails with \<open>e\<close>, so that no application exists; \<open>Inr d\<close> is an
  application that serves requests with the global \<open>drive_service\<close> equal to \<open>d\<close>.
\<close>

definition main_module :: "('cred, 'json) world \<Rightarrow> exn + DriveService" where
  "main_module w =
     (case DriveService_init w of
        Inl e \<Rightarrow> Inl e
      | Inr drive_service \<Rightarrow> Inr (startup_event w drive_service))"

text \<open>
  The endpoints \<open>GET /files\<close> and \<open>GET /file/{file_id}\<close>, on the global
  \<open>drive_service\<close>.  An \<open>HTTPException status detail\<close> that leaves an endpoint is the
  response with that status code and that detail.
\<close>

definition list_files ::
  "('cred, 'json) world \<Rightarrow> DriveService \<Rightarrow> (exn + FileInfo list) \<times> DriveService" where
  "list_files w drive_service =
     (case DriveService_list_files w drive_service of
        (r, drive_service') \<Rightarrow> (except_Exception w [] r, drive_service'))"

definition get_file ::
  "('cred, 'json) world \<Rightarrow> DriveService \<Rightarrow> pystr \<Rightarrow>
     ((exn + FileContent) \<times> DriveService) option" where
  "get_file w drive_service file_id =
     map_option (\<lambda>(r, drive_service'). (except_Exception w [] r, drive_service'))
       (DriveService_get_file_content w drive_service file_id)"

section \<open>The PDF text as the specification words it\<close>

text \<open>\<open>sep.join(ts)\<close>: the texts \<open>ts\<close> with \<open>sep\<close> between neighbours.\<close>

fun join :: "pystr \<Rightarrow> pystr list \<Rightarrow> pystr" where
  "join sep [] = []"
| "join sep [t] = t"
| "join sep (t # u # ts) = t @ sep @ join sep (u # ts)"

text \<open>
  The specification's text of a PDF whose pages have the texts \<open>ts\<close>: the page texts
  joined by newlines, then trimmed at both ends.
\<close>

definition spec_pdf_text :: "pystr list \<Rightarrow> pystr" where
  "spec_pdf_text ts = strip (join newline ts)"

section \<open>A concrete deployment\<close>

text \<open>
  \<open>str(n)\<close> for an integer, and the text starlette gives an \<open>HTTPException\<close>
  (\<^verbatim>\<open>f"{self.status_code}: {self.detail}"\<close>), as one possible \<open>lib_str\<close>.
\<close>

fun digits :: "nat \<Rightarrow> pystr" where
  "digits n = (if n < 10 then [48 + n] else digits (n div 10) @ [48 + n mod 10])"

declare digits.simps [simp del]

definition str_int :: "int \<Rightarrow> pystr" where
  "str_int i = (if i < 0 then lit ''-'' @ digits (nat (- i)) else digits (nat i))"

fun starlette_str :: "exn \<Rightarrow> pystr" where
  "starlette_str (HTTPException status_code detail) = str_int status_code @ lit '': '' @ detail"
| "starlette_str e = lit ''invalid utf-8''"

text \<open>
  A folder with a document, a PDF, an archive and a document whose export is not UTF-8.
  Exports arrive as the three chunks \<open>Hi\<close>, the first byte of \<open>U+00E9\<close> and its second
  byte (for the file \<open>b1\<close>: one byte \<open>0xFF\<close>); media downloads arrive in two chunks.
\<close>

definition drive_file :: "string \<Rightarrow> string \<Rightarrow> string \<Rightarrow> (pystr \<rightharpoonup> pystr)" where
  "drive_file i n m =
     [lit ''id'' \<mapsto> lit i, lit ''name'' \<mapsto> lit n, lit ''mimeType'' \<mapsto> lit m]"

definition example_files :: "(pystr \<rightharpoonup> pystr) list" where
  "example_files =
     [drive_file ''d1'' ''notes'' ''application/vnd.google-apps.document'',
      drive_file ''p1'' ''paper.pdf'' ''application/pdf'',
      drive_file ''z1'' ''archive.zip'' ''application/zip'',
      drive_file ''b1'' ''broken'' ''application/vnd.google-apps.document'']"

definition example_api :: drive_api where
  "example_api =
     \<lparr>files_list = (\<lambda>q fields.
        if q = query (lit ''folder1'') then Inr (Some example_files)
        else Inl (HttpError (lit ''File not found: .''))),
      files_get = (\<lambda>file_id.
        case find (\<lambda>f. f (lit ''id'') = Some file_id) example_files of
          None \<Rightarrow> Inl (HttpError (lit ''File not found''))
        | Some f \<Rightarrow> Inr f),
      export_media = (\<lambda>file_id mime_type.
        if file_id = lit ''b1'' then chunked [[0xFF]]
        else chunked [[0x48, 0x69], [0xC3], [0xA9]]),
      get_media = (\<lambda>file_id. chunked [[0x25, 0x50], [0x44, 0x46]])\<rparr>"

text \<open>
  Environments for it.  In \<open>example_world\<close> the credentials are inline JSON.  In
  \<open>file_world\<close> a credential file is configured and exists as well; the client is
  built only from the credentials of the file.  In \<open>bad_file_world\<close> that file exists
  and cannot be loaded.  In \<open>absent_file_world\<close> the file is configured and does not
  exist, and there is no inline JSON; in \<open>restored_file_world\<close> it has appeared.  In
  \<open>unconfigured_world\<close> no variable is set.
\<close>

definition example_world :: "(nat, nat) world" where
  "example_world =
     \<lparr>getenv = (\<lambda>k.
        if k = lit ''GDRIVE_FOLDER_ID'' then Some (lit ''folder1'')
        else if k = lit ''GOOGLE_SERVICE_ACCOUNT_JSON'' then Some (lit ''{}'')
        else None),
      path_exists = (\<lambda>p. False),
      from_service_account_file = (\<lambda>p s. Inl (LibraryError (lit ''No such file or directory''))),
      json_loads = (\<lambda>t. Inr 0),
      from_service_account_info = (\<lambda>j s. Inr j),
      build = (\<lambda>n v c. Inr example_api),
      PdfReader = (\<lambda>bs. Inr [Inr (lit ''Hello ''), Inr (lit '' World'' @ newline)]),
      lib_str = starlette_str\<rparr>"

definition file_world :: "(nat, nat) world" where
  "file_world =
     example_world
       \<lparr>getenv := (\<lambda>k.
          if k = lit ''GOOGLE_APPLICATION_CREDENTIALS'' then Some (lit ''/etc/sa.json'')
          else getenv example_world k),
        path_exists := (\<lambda>p. p = lit ''/etc/sa.json''),
        from_service_account_file := (\<lambda>p s. Inr 1),
        build := (\<lambda>n v c. if c = 1 then Inr example_api
                  else Inl (LibraryError (lit ''inline credentials used'')))\<rparr>"

definition bad_file_world :: "(nat, nat) world" where
  "bad_file_world =
     file_world
       \<lparr>from_service_account_file := (\<lambda>p s. Inl (LibraryError (lit ''malformed file'')))\<rparr>"

definition absent_file_world :: "(nat, nat) world" where
  "absent_file_world =
     file_world
       \<lparr>getenv := (\<lambda>k.
          if k = lit ''GDRIVE_FOLDER_ID'' then Some (lit ''folder1'')
          else if k = lit ''GOOGLE_APPLICATION_CREDENTIALS'' then Some (lit ''/etc/sa.json'')
          else None),
        path_exists := (\<lambda>p. False)\<rparr>"

definition restored_file_world :: "(nat, nat) world" where
  "restored_file_world = absent_file_world \<lparr>path_exists := (\<lambda>p. p = lit ''/etc/sa.json'')\<rparr>"

definition unconfigured_world :: "(nat, nat) world" where
  "unconfigured_world = example_world \<lparr>getenv := (\<lambda>k. None)\<rparr>"

text \<open>The object \<open>DriveService()\<close> builds in these environments, and the same with a session.\<close>

definition fresh_service :: DriveService where
  "fresh_service = \<lparr>service = None, folder_id = lit ''folder1''\<rparr>"

definition ready_service :: DriveService where
  "ready_service = \<lparr>service = Some example_api, folder_id = lit ''folder1''\<rparr>"

text \<open>A downloader whose every call fails.\<close>

definition failing_downloader :: downloader where
  "failing_downloader k = Inl (HttpError (lit ''Service Unavailable''))"

section \<open>Literals and whitespace\<close>

lemma lit_eq_iff: "lit a = lit b \<longleftrightarrow> a = b"
  by (simp add: lit_def inj_map_eq_map [OF inj_of_char])

lemma lit_eq_Nil: "lit a = [] \<longleftrightarrow> a = []"
  by (simp add: lit_def)

lemma isspace_newline: "isspace 10"
  by (simp add: isspace_def)

lemma strip_append_newline: "strip (s @ newline) = strip s"
proof (cases "\<forall>c\<in>set s. isspace c")
  case True
  then have a: "dropWhile isspace s = []"
    by (simp only: dropWhile_eq_Nil_conv)
  from True have "\<forall>c\<in>set (s @ newline). isspace c"
    by (simp add: newline_def isspace_newline)
  then have b: "dropWhile isspace (s @ newline) = []"
    by (simp only: dropWhile_eq_Nil_conv)
  show ?thesis by (simp only: strip_def a b)
next
  case False
  then have "dropWhile isspace (s @ newline) = dropWhile isspace s @ newline"
    by (auto simp: dropWhile_append1)
  then show ?thesis by (simp add: strip_def newline_def isspace_newline)
qed

lemma truthy_iff: "truthy x \<longleftrightarrow> (\<exists>s. x = Some s \<and> s \<noteq> [])"
  by (cases x) simp_all


section \<open>Properties of the chunked download loop\<close>

lemma download_loop_chunked:
  "k < length cs \<Longrightarrow>
   download_loop (chunked cs) k fh = Some (Inr (fh @ concat (drop k cs)))"
proof (induction "length cs - k" arbitrary: k fh)
  case 0
  then show ?case by simp
next
  case (Suc n)
  show ?case
  proof (cases "Suc k = length cs")
    case True
    then have "drop k cs = [cs ! k]"
      by (metis Suc.prems Cons_nth_drop_Suc drop_all order_refl)
    with True Suc.prems show ?thesis
      by (subst download_loop.simps) (simp add: chunked_def)
  next
    case False
    with Suc.prems have lt: "Suc k < length cs" by simp
    from Suc.hyps(2) have "n = length cs - Suc k" by simp
    from Suc.hyps(1) [OF this lt]
    have "download_loop (chunked cs) (Suc k) (fh @ cs ! k) =
            Some (Inr ((fh @ cs ! k) @ concat (drop (Suc k) cs)))" .
    moreover have "drop k cs = cs ! k # drop (Suc k) cs"
      using Suc.prems by (simp add: Cons_nth_drop_Suc)
    ultimately show ?thesis
      using False Suc.prems
      by (subst download_loop.simps) (simp add: chunked_def)
  qed
qed

lemma download_chunked: "download (chunked cs) = Some (Inr (concat cs))"
proof (cases cs)
  case Nil
  then show ?thesis
    unfolding download_def by (subst download_loop.simps) (simp add: chunked_def)
next
  case (Cons c cs')
  then show ?thesis
    unfolding download_def using download_loop_chunked [of 0 cs "[]"] by simp
qed

text \<open>
  Claim C6.  Whatever the partition \<open>cs\<close> of a byte content into chunks, the download
  loop returns, and its buffer holds the chunks in order, which is the buffer the loop
  ends with when the whole content arrives in one chunk.  In particular three chunks
  \<open>a\<close>, \<open>b\<close>, \<open>c\<close> give the same bytes as the single chunk \<open>a @ b @ c\<close>.  Hence
  \<open>_export_google_doc\<close> and \<open>_extract_pdf_text\<close> give the same result on a provider
  that delivers the chunks \<open>cs\<close> and on one that delivers their concatenation at once.
\<close>

theorem download_independent_of_chunking:
  "download (chunked cs) = Some (Inr (concat cs)) \<and>
   download (chunked cs) = download (chunked [concat cs]) \<and>
   download (chunked [a, b, c]) = download (chunked [a @ b @ c]) \<and>
   export_google_doc (svc\<lparr>export_media := \<lambda>file_id mime_type. chunked cs\<rparr>) file_id =
     export_google_doc (svc\<lparr>export_media := \<lambda>file_id mime_type. chunked [concat cs]\<rparr>)
       file_id \<and>
   extract_pdf_text w (svc\<lparr>get_media := \<lambda>file_id. chunked cs\<rparr>) file_id =
     extract_pdf_text w (svc\<lparr>get_media := \<lambda>file_id. chunked [concat cs]\<rparr>) file_id"
  by (simp add: download_chunked export_google_doc_def decode_download_def
      extract_pdf_text_def)

theorem download_independent_of_chunking_witness:
  "download (chunked [[0x68, 0x65], [0x6C], [0x6C, 0x6F]]) =
   download (chunked [[0x68, 0x65, 0x6C, 0x6C, 0x6F]])"
  using download_independent_of_chunking
    [where cs = "[[0x68, 0x65], [0x6C], [0x6C, 0x6F]]", THEN conjunct2, THEN conjunct1]
  by simp


section \<open>Credentials and the session\<close>

lemma credential_file_used:
  "truthy x \<and> path_exists w (the x) \<longleftrightarrow> (\<exists>p. x = Some p \<and> p \<noteq> [] \<and> path_exists w p)"
  by (cases x) simp_all

lemma authenticate_try_file:
  assumes "getenv w (lit ''GOOGLE_APPLICATION_CREDENTIALS'') = Some p"
    and "p \<noteq> []" and "path_exists w p"
  shows "authenticate_try w =
           (case from_service_account_file w p scopes of
              Inl e \<Rightarrow> Inl e
            | Inr credentials \<Rightarrow> build w (lit ''drive'') (lit ''v3'') credentials)"
  using assms by (simp add: authenticate_try_def)

lemma authenticate_try_no_file:
  assumes "\<forall>q. getenv w (lit ''GOOGLE_APPLICATION_CREDENTIALS'') = Some q \<longrightarrow>
             q = [] \<or> \<not> path_exists w q"
  shows "authenticate_try w =
           (let credentials_json = getenv w (lit ''GOOGLE_SERVICE_ACCOUNT_JSON'') in
            if truthy credentials_json then
              (case json_loads w (the credentials_json) of
                 Inl e \<Rightarrow> Inl e
               | Inr credentials_info \<Rightarrow>
                   (case from_service_account_info w credentials_info scopes of
                      Inl e \<Rightarrow> Inl e
                    | Inr credentials \<Rightarrow> build w (lit ''drive'') (lit ''v3'') credentials))
            else
              Inl (ValueError (lit (''No valid Google credentials found. '' @
                ''Set GOOGLE_APPLICATION_CREDENTIALS or GOOGLE_SERVICE_ACCOUNT_JSON''))))"
proof -
  have "\<not> (truthy (getenv w (lit ''GOOGLE_APPLICATION_CREDENTIALS'')) \<and>
           path_exists w (the (getenv w (lit ''GOOGLE_APPLICATION_CREDENTIALS''))))"
    using assms unfolding credential_file_used by blast
  then show ?thesis
    unfolding authenticate_try_def Let_def by (simp only: if_False)
qed

lemma authenticate_failure_is_500:
  "DriveService_authenticate w self = Inl e \<Longrightarrow>
   \<exists>e0. authenticate_try w = Inl e0 \<and>
        e = HTTPException 500 (lit ''Authentication failed: '' @ str_exc w e0)"
  by (cases "authenticate_try w") (simp_all add: DriveService_authenticate_def)

text \<open>
  Claim C4.  \<open>authenticate\<close> resolves the credentials in this order.  When the variable
  \<open>GOOGLE_APPLICATION_CREDENTIALS\<close> holds a non-empty path \<open>p\<close> and \<open>p\<close> exists, the file
  is used: the session is the client built from its credentials, and when the file
  cannot be loaded the call fails, whatever the inline text is.  Otherwise, when
  \<open>GOOGLE_SERVICE_ACCOUNT_JSON\<close> holds a non-empty text, that text is parsed and the
  session is the client built from it.  Otherwise the call fails with the message that
  no valid credentials were found.  Every failure of \<open>authenticate\<close> is an
  \<open>HTTPException\<close> with status 500 whose detail starts with \<open>Authentication failed: \<close>.
\<close>

theorem authenticate_resolution_order:
  "(getenv w (lit ''GOOGLE_APPLICATION_CREDENTIALS'') = Some p \<and> p \<noteq> [] \<and> path_exists w p \<and>
    from_service_account_file w p scopes = Inr c \<and>
    build w (lit ''drive'') (lit ''v3'') c = Inr svc
    \<longrightarrow> DriveService_authenticate w self = Inr (self\<lparr>service := Some svc\<rparr>)) \<and>
   (getenv w (lit ''GOOGLE_APPLICATION_CREDENTIALS'') = Some p \<and> p \<noteq> [] \<and> path_exists w p \<and>
    from_service_account_file w p scopes = Inl e
    \<longrightarrow> DriveService_authenticate w self =
          Inl (HTTPException 500 (lit ''Authentication failed: '' @ str_exc w e))) \<and>
   ((\<forall>q. getenv w (lit ''GOOGLE_APPLICATION_CREDENTIALS'') = Some q \<longrightarrow>
          q = [] \<or> \<not> path_exists w q) \<and>
    getenv w (lit ''GOOGLE_SERVICE_ACCOUNT_JSON'') = Some j \<and> j \<noteq> [] \<and>
    json_loads w j = Inr info \<and> from_service_account_info w info scopes = Inr c \<and>
    build w (lit ''drive'') (lit ''v3'') c = Inr svc
    \<longrightarrow> DriveService_authenticate w self = Inr (self\<lparr>service := Some svc\<rparr>)) \<and>
   ((\<forall>q. getenv w (lit ''GOOGLE_APPLICATION_CREDENTIALS'') = Some q \<longrightarrow>
          q = [] \<or> \<not> path_exists w q) \<and>
    (\<forall>j. getenv w (lit ''GOOGLE_SERVICE_ACCOUNT_JSON'') = Some j \<longrightarrow> j = [])
    \<longrightarrow> DriveService_authenticate w self =
          Inl (HTTPException 500
            (lit (''Authentication failed: No valid Google credentials found. '' @
                  ''Set GOOGLE_APPLICATION_CREDENTIALS or GOOGLE_SERVICE_ACCOUNT_JSON'')))) \<and>
   (DriveService_authenticate w self = Inl e'
    \<longrightarrow> (\<exists>d. e' = HTTPException 500 (lit ''Authentication failed: '' @ d)))"
proof (intro conjI impI)
  assume "getenv w (lit ''GOOGLE_APPLICATION_CREDENTIALS'') = Some p \<and> p \<noteq> [] \<and>
    path_exists w p \<and> from_service_account_file w p scopes = Inr c \<and>
    build w (lit ''drive'') (lit ''v3'') c = Inr svc"
  then show "DriveService_authenticate w self = Inr (self\<lparr>service := Some svc\<rparr>)"
    by (simp add: DriveService_authenticate_def authenticate_try_file)
next
  assume "getenv w (lit ''GOOGLE_APPLICATION_CREDENTIALS'') = Some p \<and> p \<noteq> [] \<and>
    path_exists w p \<and> from_service_account_file w p scopes = Inl e"
  then show "DriveService_authenticate w self =
      Inl (HTTPException 500 (lit ''Authentication failed: '' @ str_exc w e))"
    by (simp add: DriveService_authenticate_def authenticate_try_file)
next
  assume a: "(\<forall>q. getenv w (lit ''GOOGLE_APPLICATION_CREDENTIALS'') = Some q \<longrightarrow>
          q = [] \<or> \<not> path_exists w q) \<and>
    getenv w (lit ''GOOGLE_SERVICE_ACCOUNT_JSON'') = Some j \<and> j \<noteq> [] \<and>
    json_loads w j = Inr info \<and> from_service_account_info w info scopes = Inr c \<and>
    build w (lit ''drive'') (lit ''v3'') c = Inr svc"
  then have "authenticate_try w = Inr svc"
    by (simp add: authenticate_try_no_file)
  then show "DriveService_authenticate w self = Inr (self\<lparr>service := Some svc\<rparr>)"
    by (simp add: DriveService_authenticate_def)
next
  assume a: "(\<forall>q. getenv w (lit ''GOOGLE_APPLICATION_CREDENTIALS'') = Some q \<longrightarrow>
          q = [] \<or> \<not> path_exists w q) \<and>
    (\<forall>j. getenv w (lit ''GOOGLE_SERVICE_ACCOUNT_JSON'') = Some j \<longrightarrow> j = [])"
  then have "\<not> truthy (getenv w (lit ''GOOGLE_SERVICE_ACCOUNT_JSON''))"
    by (simp add: truthy_iff)
  with a have "authenticate_try w =
      Inl (ValueError (lit (''No valid Google credentials found. '' @
        ''Set GOOGLE_APPLICATION_CREDENTIALS or GOOGLE_SERVICE_ACCOUNT_JSON'')))"
    by (simp add: authenticate_try_no_file)
  then show "DriveService_authenticate w self =
      Inl (HTTPException 500
        (lit (''Authentication failed: No valid Google credentials found. '' @
              ''Set GOOGLE_APPLICATION_CREDENTIALS or GOOGLE_SERVICE_ACCOUNT_JSON'')))"
    by (simp add: DriveService_authenticate_def lit_def)
next
  assume "DriveService_authenticate w self = Inl e'"
  from authenticate_failure_is_500 [OF this]
  show "\<exists>d. e' = HTTPException 500 (lit ''Authentication failed: '' @ d)"
    by blast
qed

lemma getenv_worlds:
  "getenv file_world (lit ''GOOGLE_APPLICATION_CREDENTIALS'') = Some (lit ''/etc/sa.json'')"
  "getenv bad_file_world (lit ''GOOGLE_APPLICATION_CREDENTIALS'') = Some (lit ''/etc/sa.json'')"
  "getenv example_world (lit ''GOOGLE_APPLICATION_CREDENTIALS'') = None"
  "getenv example_world (lit ''GOOGLE_SERVICE_ACCOUNT_JSON'') = Some (lit ''{}'')"
  "getenv absent_file_world (lit ''GOOGLE_APPLICATION_CREDENTIALS'') = Some (lit ''/etc/sa.json'')"
  "getenv absent_file_world (lit ''GOOGLE_SERVICE_ACCOUNT_JSON'') = None"
  "getenv restored_file_world (lit ''GOOGLE_APPLICATION_CREDENTIALS'') =
     Some (lit ''/etc/sa.json'')"
  by (simp_all add: file_world_def bad_file_world_def example_world_def absent_file_world_def
      restored_file_world_def lit_eq_iff)

theorem authenticate_resolution_order_witness:
  "DriveService_authenticate file_world fresh_service = Inr ready_service \<and>
   DriveService_authenticate bad_file_world fresh_service =
     Inl (HTTPException 500 (lit ''Authentication failed: malformed file'')) \<and>
   DriveService_authenticate example_world fresh_service = Inr ready_service \<and>
   DriveService_authenticate absent_file_world fresh_service =
     Inl (HTTPException 500
       (lit (''Authentication failed: No valid Google credentials found. '' @
             ''Set GOOGLE_APPLICATION_CREDENTIALS or GOOGLE_SERVICE_ACCOUNT_JSON''))) \<and>
   (\<exists>d. HTTPException 500 (lit ''Authentication failed: malformed file'') =
        HTTPException 500 (lit ''Authentication failed: '' @ d))"
proof -
  have upd: "fresh_service\<lparr>service := Some example_api\<rparr> = ready_service"
    by (simp add: fresh_service_def ready_service_def)
  have "getenv file_world (lit ''GOOGLE_APPLICATION_CREDENTIALS'') = Some (lit ''/etc/sa.json'') \<and>
      lit ''/etc/sa.json'' \<noteq> [] \<and> path_exists file_world (lit ''/etc/sa.json'') \<and>
      from_service_account_file file_world (lit ''/etc/sa.json'') scopes = Inr 1 \<and>
      build file_world (lit ''drive'') (lit ''v3'') 1 = Inr example_api"
    by (simp add: getenv_worlds lit_eq_Nil) (simp add: file_world_def)
  from authenticate_resolution_order [THEN conjunct1, rule_format, OF this]
  have 1: "DriveService_authenticate file_world fresh_service = Inr ready_service"
    by (simp only: upd)
  have "getenv bad_file_world (lit ''GOOGLE_APPLICATION_CREDENTIALS'') =
        Some (lit ''/etc/sa.json'') \<and>
      lit ''/etc/sa.json'' \<noteq> [] \<and> path_exists bad_file_world (lit ''/etc/sa.json'') \<and>
      from_service_account_file bad_file_world (lit ''/etc/sa.json'') scopes =
        Inl (LibraryError (lit ''malformed file''))"
    by (simp add: getenv_worlds lit_eq_Nil) (simp add: bad_file_world_def file_world_def)
  from authenticate_resolution_order [THEN conjunct2, THEN conjunct1, rule_format, OF this]
  have 2: "DriveService_authenticate bad_file_world fresh_service =
     Inl (HTTPException 500 (lit ''Authentication failed: malformed file''))"
    by (simp add: lit_def)
  have "(\<forall>q. getenv example_world (lit ''GOOGLE_APPLICATION_CREDENTIALS'') = Some q \<longrightarrow>
          q = [] \<or> \<not> path_exists example_world q) \<and>
      getenv example_world (lit ''GOOGLE_SERVICE_ACCOUNT_JSON'') = Some (lit ''{}'') \<and>
      lit ''{}'' \<noteq> [] \<and> json_loads example_world (lit ''{}'') = Inr 0 \<and>
      from_service_account_info example_world 0 scopes = Inr 0 \<and>
      build example_world (lit ''drive'') (lit ''v3'') 0 = Inr example_api"
    by (simp add: getenv_worlds lit_eq_Nil) (simp add: example_world_def)
  from authenticate_resolution_order
    [THEN conjunct2, THEN conjunct2, THEN conjunct1, rule_format, OF this]
  have 3: "DriveService_authenticate example_world fresh_service = Inr ready_service"
    by (simp only: upd)
  have "(\<forall>q. getenv absent_file_world (lit ''GOOGLE_APPLICATION_CREDENTIALS'') = Some q \<longrightarrow>
          q = [] \<or> \<not> path_exists absent_file_world q) \<and>
      (\<forall>j. getenv absent_file_world (lit ''GOOGLE_SERVICE_ACCOUNT_JSON'') = Some j \<longrightarrow> j = [])"
    by (simp add: getenv_worlds) (simp add: absent_file_world_def)
  from authenticate_resolution_order
    [THEN conjunct2, THEN conjunct2, THEN conjunct2, THEN conjunct1, rule_format, OF this]
  have 4: "DriveService_authenticate absent_file_world fresh_service =
     Inl (HTTPException 500
       (lit (''Authentication failed: No valid Google credentials found. '' @
             ''Set GOOGLE_APPLICATION_CREDENTIALS or GOOGLE_SERVICE_ACCOUNT_JSON'')))" .
  from authenticate_resolution_order
    [THEN conjunct2, THEN conjunct2, THEN conjunct2, THEN conjunct2, rule_format, OF 2]
  have 5: "\<exists>d. HTTPException 500 (lit ''Authentication failed: malformed file'') =
        HTTPException 500 (lit ''Authentication failed: '' @ d)" .
  from 1 2 3 4 5 show ?thesis by blast
qed

text \<open>
  Claim C8.  When the variable \<open>GDRIVE_FOLDER_ID\<close> is absent, \<open>DriveService()\<close> raises
  a \<open>ValueError\<close>; the statement that builds the global \<open>drive_service\<close> is at module
  level, so loading the module fails and there is no application to serve requests.
\<close>

theorem missing_folder_id_is_fatal:
  assumes "getenv w (lit ''GDRIVE_FOLDER_ID'') = None"
  shows "DriveService_init w =
           Inl (ValueError (lit ''GDRIVE_FOLDER_ID environment variable is required'')) \<and>
         main_module w =
           Inl (ValueError (lit ''GDRIVE_FOLDER_ID environment variable is required''))"
  using assms by (simp add: DriveService_init_def main_module_def)

theorem missing_folder_id_is_fatal_witness:
  "main_module unconfigured_world =
     Inl (ValueError (lit ''GDRIVE_FOLDER_ID environment variable is required''))"
proof -
  have "getenv unconfigured_world (lit ''GDRIVE_FOLDER_ID'') = None"
    by (simp add: unconfigured_world_def)
  from missing_folder_id_is_fatal [OF this] show ?thesis by simp
qed

lemma ensure_service_folder_id:
  "ensure_service w self = Inr self' \<Longrightarrow> folder_id self' = folder_id self"
  by (auto simp: ensure_service_def DriveService_authenticate_def split: if_splits sum.splits)

lemma authenticate_gives_session:
  "DriveService_authenticate w self = Inr self' \<Longrightarrow> service self' \<noteq> None"
  by (auto simp: DriveService_authenticate_def split: sum.splits)

lemma ensure_service_ready: "service self \<noteq> None \<Longrightarrow> ensure_service w self = Inr self"
  by (auto simp: ensure_service_def)

lemma ensure_service_fresh:
  "service self = None \<Longrightarrow> ensure_service w self = DriveService_authenticate w self"
  by (simp add: ensure_service_def)

text \<open>
  Claim C10.  Let the module load with the object \<open>ds\<close> and let \<open>authenticate\<close> fail in
  the startup hook.  Then the application is ready with \<open>ds\<close> unchanged and without a
  session.  A later request, in the environment \<open>w'\<close> of that moment, authenticates
  again: when that fails, the request fails with the failure of \<open>authenticate\<close>
  (wrapped by the endpoint); when it succeeds with the object \<open>ds'\<close>, which has a
  session, the request gives what it gives on \<open>ds'\<close>.
\<close>

theorem failed_startup_authenticates_lazily:
  assumes "DriveService_init w = Inr ds"
    and "DriveService_authenticate w ds = Inl e"
  shows "main_module w = Inr ds \<and> service ds = None \<and>
    (DriveService_authenticate w' ds = Inl e' \<longrightarrow>
       list_files w' ds = (Inl (HTTPException 500 (str_exc w' e')), ds) \<and>
       get_file w' ds file_id = Some (Inl (HTTPException 500 (str_exc w' e')), ds)) \<and>
    (DriveService_authenticate w' ds = Inr ds' \<longrightarrow>
       service ds' \<noteq> None \<and>
       list_files w' ds = list_files w' ds' \<and>
       get_file w' ds file_id = get_file w' ds' file_id)"
proof -
  from assms(1) have none: "service ds = None"
    by (auto simp: DriveService_init_def Let_def split: if_splits)
  have ready: "main_module w = Inr ds"
    using assms by (simp add: main_module_def startup_event_def)
  have fails: "list_files w' ds = (Inl (HTTPException 500 (str_exc w' e')), ds) \<and>
       get_file w' ds file_id = Some (Inl (HTTPException 500 (str_exc w' e')), ds)"
    if "DriveService_authenticate w' ds = Inl e'"
    using that none
    by (simp add: list_files_def get_file_def DriveService_list_files_def
        DriveService_get_file_content_def ensure_service_fresh)
  have succeeds: "service ds' \<noteq> None \<and> list_files w' ds = list_files w' ds' \<and>
       get_file w' ds file_id = get_file w' ds' file_id"
    if a: "DriveService_authenticate w' ds = Inr ds'"
  proof -
    from authenticate_gives_session [OF a] have s: "service ds' \<noteq> None" .
    then show ?thesis
      using a none
      by (simp add: list_files_def get_file_def DriveService_list_files_def
          DriveService_get_file_content_def ensure_service_fresh ensure_service_ready)
  qed
  from none ready fails succeeds show ?thesis by blast
qed

lemma str_int_status: "str_int 400 = lit ''400''" "str_int 500 = lit ''500''"
  by (simp_all add: str_int_def digits.simps lit_def)

lemma authenticate_example:
  "DriveService_authenticate example_world \<lparr>service = None, folder_id = f\<rparr> =
     Inr \<lparr>service = Some example_api, folder_id = f\<rparr>"
  by (simp add: DriveService_authenticate_def authenticate_try_def example_world_def
      lit_eq_iff lit_eq_Nil Let_def)

lemma authenticate_absent_file:
  "DriveService_authenticate absent_file_world self =
     Inl (HTTPException 500
       (lit (''Authentication failed: No valid Google credentials found. '' @
             ''Set GOOGLE_APPLICATION_CREDENTIALS or GOOGLE_SERVICE_ACCOUNT_JSON'')))"
  by (simp add: DriveService_authenticate_def authenticate_try_def getenv_worlds Let_def)
     (simp add: absent_file_world_def lit_def)

lemma authenticate_restored_file:
  "DriveService_authenticate restored_file_world fresh_service = Inr ready_service"
  by (simp add: DriveService_authenticate_def authenticate_try_def getenv_worlds Let_def
      lit_eq_Nil)
     (simp add: restored_file_world_def absent_file_world_def file_world_def
      fresh_service_def ready_service_def)

lemma ensure_example: "ensure_service example_world fresh_service = Inr ready_service"
  by (simp add: ensure_service_def fresh_service_def ready_service_def authenticate_example)

theorem failed_startup_authenticates_lazily_witness:
  "main_module absent_file_world = Inr fresh_service \<and>
   list_files absent_file_world fresh_service =
     (Inl (HTTPException 500
        (lit (''500: Authentication failed: No valid Google credentials found. '' @
              ''Set GOOGLE_APPLICATION_CREDENTIALS or GOOGLE_SERVICE_ACCOUNT_JSON''))),
      fresh_service) \<and>
   list_files restored_file_world fresh_service = list_files restored_file_world ready_service"
proof -
  have i: "DriveService_init absent_file_world = Inr fresh_service"
    by (simp add: DriveService_init_def absent_file_world_def fresh_service_def Let_def
        lit_eq_Nil)
  note r = failed_startup_authenticates_lazily [OF i authenticate_absent_file]
  have s: "str_exc absent_file_world (HTTPException 500
       (lit (''Authentication failed: No valid Google credentials found. '' @
             ''Set GOOGLE_APPLICATION_CREDENTIALS or GOOGLE_SERVICE_ACCOUNT_JSON''))) =
       lit (''500: Authentication failed: No valid Google credentials found. '' @
              ''Set GOOGLE_APPLICATION_CREDENTIALS or GOOGLE_SERVICE_ACCOUNT_JSON'')"
    by (simp add: absent_file_world_def file_world_def example_world_def str_int_status)
       (simp add: lit_def)
  from r [THEN conjunct1] have 1: "main_module absent_file_world = Inr fresh_service" .
  from r [THEN conjunct2, THEN conjunct2, THEN conjunct1, rule_format,
      OF authenticate_absent_file]
  have 2: "list_files absent_file_world fresh_service =
     (Inl (HTTPException 500
        (lit (''500: Authentication failed: No valid Google credentials found. '' @
              ''Set GOOGLE_APPLICATION_CREDENTIALS or GOOGLE_SERVICE_ACCOUNT_JSON''))),
      fresh_service)"
    by (simp only: s)
  from r [THEN conjunct2, THEN conjunct2, THEN conjunct2, rule_format,
      OF authenticate_restored_file]
  have 3: "list_files restored_file_world fresh_service =
      list_files restored_file_world ready_service"
    by blast
  from 1 2 3 show ?thesis by blast
qed


section \<open>Listing the folder\<close>

lemma file_infos_verbatim:
  assumes "list_all2 (\<lambda>file info. \<exists>i n. info = FileInfo i n \<and>
             file (lit ''id'') = Some i \<and> file (lit ''name'') = Some n) files infos"
  shows "file_infos files = Inr infos"
  using assms by (induction rule: list_all2_induct) auto

text \<open>
  Claim C5.  With a session (already there or just established), \<open>list_files\<close> sends
  one query, the folder identifier between single quotes followed by
  \<open> in parents and trashed=false\<close>, and asks for the fields \<open>id\<close>, \<open>name\<close> and
  \<open>mimeType\<close>.  When the provider answers with files that each carry an \<open>id\<close> and a
  \<open>name\<close>, the method and the endpoint return one \<open>FileInfo\<close> per file, with that
  \<open>id\<close> and that \<open>name\<close>, in the provider's order: nothing is dropped, added or moved.
\<close>

theorem list_files_verbatim:
  assumes "ensure_service w self = Inr self'"
    and "service self' = Some svc"
    and "files_list svc (quote @ folder_id self @ quote @ lit '' in parents and trashed=false'')
           (lit ''files(id, name, mimeType)'') = Inr results"
    and "list_all2 (\<lambda>file info. \<exists>i n. info = FileInfo i n \<and>
           file (lit ''id'') = Some i \<and> file (lit ''name'') = Some n)
           (case results of None \<Rightarrow> [] | Some fs \<Rightarrow> fs) infos"
  shows "DriveService_list_files w self = (Inr infos, self') \<and>
         list_files w self = (Inr infos, self')"
proof -
  have "list_files_try self' = Inr infos"
    using assms(2,3) file_infos_verbatim [OF assms(4)] ensure_service_folder_id [OF assms(1)]
    by (simp add: list_files_try_def query_def)
  then have "DriveService_list_files w self = (Inr infos, self')"
    using assms(1) by (simp add: DriveService_list_files_def)
  then show ?thesis by (simp add: list_files_def)
qed

lemma drive_file_fields:
  "drive_file i n m (lit ''id'') = Some (lit i)"
  "drive_file i n m (lit ''name'') = Some (lit n)"
  "drive_file i n m (lit ''mimeType'') = Some (lit m)"
  by (simp_all add: drive_file_def lit_eq_iff)

lemma service_ready: "service ready_service = Some example_api"
  by (simp add: ready_service_def)

theorem list_files_verbatim_witness:
  "list_files example_world fresh_service =
     (Inr [FileInfo (lit ''d1'') (lit ''notes''), FileInfo (lit ''p1'') (lit ''paper.pdf''),
           FileInfo (lit ''z1'') (lit ''archive.zip''), FileInfo (lit ''b1'') (lit ''broken'')],
      ready_service)"
proof -
  have 3: "files_list example_api
             (quote @ folder_id fresh_service @ quote @ lit '' in parents and trashed=false'')
             (lit ''files(id, name, mimeType)'') = Inr (Some example_files)"
    by (simp add: example_api_def query_def fresh_service_def)
  have 4: "list_all2 (\<lambda>file info. \<exists>i n. info = FileInfo i n \<and>
             file (lit ''id'') = Some i \<and> file (lit ''name'') = Some n)
             (case Some example_files of None \<Rightarrow> [] | Some fs \<Rightarrow> fs)
             [FileInfo (lit ''d1'') (lit ''notes''), FileInfo (lit ''p1'') (lit ''paper.pdf''),
              FileInfo (lit ''z1'') (lit ''archive.zip''), FileInfo (lit ''b1'') (lit ''broken'')]"
    by (simp add: example_files_def drive_file_fields)
  from list_files_verbatim [OF ensure_example service_ready 3 4] show ?thesis by simp
qed

text \<open>
  Claim C2.  When the provider answers the query of the list operation with an
  \<open>HttpError\<close> of text \<open>m\<close>, the operation \<open>DriveService.list_files\<close> fails with an
  \<open>HTTPException\<close> of status 400 whose detail is \<open>Error listing files: \<close> followed by
  the provider's message \<open>m\<close>.  The endpoint \<open>GET /files\<close> answers a failure of the
  operation with status 500, as the specification has it for that endpoint, and its
  detail is the text of the exception the operation raised.
\<close>

theorem list_files_provider_error:
  assumes "ensure_service w self = Inr self'"
    and "service self' = Some svc"
    and "files_list svc (quote @ folder_id self @ quote @ lit '' in parents and trashed=false'')
           (lit ''files(id, name, mimeType)'') = Inl (HttpError m)"
  shows "DriveService_list_files w self =
           (Inl (HTTPException 400 (lit ''Error listing files: '' @ m)), self') \<and>
         list_files w self =
           (Inl (HTTPException 500
              (lib_str w (HTTPException 400 (lit ''Error listing files: '' @ m)))), self')"
proof -
  have "list_files_try self' = Inl (HttpError m)"
    using assms(2,3) ensure_service_folder_id [OF assms(1)]
    by (simp add: list_files_try_def query_def)
  then have "DriveService_list_files w self =
      (Inl (HTTPException 400 (lit ''Error listing files: '' @ m)), self')"
    using assms(1) by (simp add: DriveService_list_files_def)
  then show ?thesis by (simp add: list_files_def)
qed

theorem list_files_provider_error_witness:
  "DriveService_list_files example_world \<lparr>service = None, folder_id = lit ''other''\<rparr> =
     (Inl (HTTPException 400 (lit ''Error listing files: File not found: .'')),
      \<lparr>service = Some example_api, folder_id = lit ''other''\<rparr>) \<and>
   list_files example_world \<lparr>service = None, folder_id = lit ''other''\<rparr> =
     (Inl (HTTPException 500 (lit ''400: Error listing files: File not found: .'')),
      \<lparr>service = Some example_api, folder_id = lit ''other''\<rparr>)"
proof -
  have 1: "ensure_service example_world \<lparr>service = None, folder_id = lit ''other''\<rparr> =
             Inr \<lparr>service = Some example_api, folder_id = lit ''other''\<rparr>"
    by (simp add: ensure_service_def authenticate_example)
  have 2: "service \<lparr>service = Some example_api, folder_id = lit ''other''\<rparr> = Some example_api"
    by simp
  have 3: "files_list example_api
             (quote @ folder_id \<lparr>service = None, folder_id = lit ''other''\<rparr> @ quote @
                lit '' in parents and trashed=false'')
             (lit ''files(id, name, mimeType)'') = Inl (HttpError (lit ''File not found: .''))"
    by (simp add: example_api_def query_def lit_eq_iff)
  have 4: "lib_str example_world
             (HTTPException 400 (lit ''Error listing files: '' @ lit ''File not found: .'')) =
           lit ''400: Error listing files: File not found: .''"
    by (simp add: example_world_def str_int_status) (simp add: lit_def)
  have 5: "lit ''Error listing files: '' @ lit ''File not found: .'' =
           lit ''Error listing files: File not found: .''"
    by (simp add: lit_def)
  from list_files_provider_error [OF 1 2 3] show ?thesis
    by (simp only: 4) (simp only: 5)
qed


section \<open>Reading a file\<close>

text \<open>The dispatch of \<open>get_file_content\<close> on the content type, once the metadata is there.\<close>

lemma get_file_content_try_dispatch:
  assumes "service self = Some svc"
    and "files_get svc file_id = Inr file_metadata"
    and "file_metadata (lit ''name'') = Some file_name"
    and "file_metadata (lit ''mimeType'') = Some mime_type"
  shows "get_file_content_try w self file_id =
     map_option (map_sum id (FileContent file_id file_name))
       (if mime_type = lit ''application/vnd.google-apps.document'' then
          export_google_doc svc file_id
        else if mime_type = lit ''application/vnd.google-apps.spreadsheet'' then
          export_google_sheet svc file_id
        else if mime_type = lit ''application/vnd.google-apps.presentation'' then
          export_google_slides svc file_id
        else if mime_type = lit ''application/pdf'' then
          extract_pdf_text w svc file_id
        else if startswith mime_type (lit ''text/'') then
          download_text_file svc file_id
        else
          Some (Inl (HTTPException 400 (lit ''Unsupported file type: '' @ mime_type))))"
  using assms by (simp add: get_file_content_try_def)

lemma get_file_of_content:
  assumes "ensure_service w self = Inr self'"
    and "get_file_content_try w self' file_id = Some r"
  shows "DriveService_get_file_content w self file_id =
           Some (except_HttpError w (lit ''Error getting file content: '') r, self')"
    and "get_file w self file_id =
           Some (except_Exception w []
                   (except_HttpError w (lit ''Error getting file content: '') r), self')"
  using assms by (simp_all add: DriveService_get_file_content_def get_file_def)

lemma files_get_example:
  "files_get example_api (lit ''d1'') =
     Inr (drive_file ''d1'' ''notes'' ''application/vnd.google-apps.document'')"
  "files_get example_api (lit ''p1'') = Inr (drive_file ''p1'' ''paper.pdf'' ''application/pdf'')"
  "files_get example_api (lit ''z1'') = Inr (drive_file ''z1'' ''archive.zip'' ''application/zip'')"
  "files_get example_api (lit ''b1'') =
     Inr (drive_file ''b1'' ''broken'' ''application/vnd.google-apps.document'')"
  by (simp_all add: example_api_def example_files_def drive_file_def lit_eq_iff)

text \<open>
  Claim C7.  For a file whose content type is that of a native word-processor document,
  \<open>get_file_content\<close> asks the provider for the export to \<open>text/plain\<close>; when the
  download ends with the bytes \<open>bs\<close> and these are the UTF-8 encoding of the text \<open>s\<close>, the
  content returned, by the method and by the endpoint, is \<open>s\<close> itself.
\<close>

theorem word_processor_content:
  assumes "ensure_service w self = Inr self'"
    and "service self' = Some svc"
    and "files_get svc file_id = Inr file_metadata"
    and "file_metadata (lit ''name'') = Some file_name"
    and "file_metadata (lit ''mimeType'') = Some (lit ''application/vnd.google-apps.document'')"
    and "download (export_media svc file_id (lit ''text/plain'')) = Some (Inr bs)"
    and "utf8 bs = Some s"
  shows "DriveService_get_file_content w self file_id =
           Some (Inr (FileContent file_id file_name s), self') \<and>
         get_file w self file_id = Some (Inr (FileContent file_id file_name s), self')"
proof -
  have "export_google_doc svc file_id = Some (Inr s)"
    using assms(6,7) by (simp add: export_google_doc_def decode_download_def decode_utf8_def)
  then have "get_file_content_try w self' file_id = Some (Inr (FileContent file_id file_name s))"
    by (simp add: get_file_content_try_dispatch [OF assms(2-5)])
  from get_file_of_content [OF assms(1) this] show ?thesis by simp
qed

theorem word_processor_content_witness:
  "get_file example_world fresh_service (lit ''d1'') =
     Some (Inr (FileContent (lit ''d1'') (lit ''notes'') [0x48, 0x69, 0xE9]), ready_service)"
proof -
  have 6: "download (export_media example_api (lit ''d1'') (lit ''text/plain'')) =
             Some (Inr [0x48, 0x69, 0xC3, 0xA9])"
    by (simp add: example_api_def download_chunked lit_eq_iff)
  have 7: "utf8 [0x48, 0x69, 0xC3, 0xA9] = Some [0x48, 0x69, 0xE9]"
    by (simp add: cont_def low6_def)
  from word_processor_content
    [OF ensure_example service_ready files_get_example(1) drive_file_fields(2,3) 6 7]
  show ?thesis by simp
qed

lemma extract_pages_texts:
  "extract_pages (map Inr ts) acc = Inr (acc @ concat (map (\<lambda>t. t @ newline) ts))"
  by (induction ts arbitrary: acc) simp_all

lemma concat_lines_join:
  "ts \<noteq> [] \<Longrightarrow> concat (map (\<lambda>t. t @ newline) ts) = join newline ts @ newline"
  by (induction newline ts rule: join.induct) simp_all

lemma strip_pages: "strip (concat (map (\<lambda>t. t @ newline) ts)) = spec_pdf_text ts"
  by (cases "ts = []") (simp_all add: concat_lines_join strip_append_newline spec_pdf_text_def)

lemma extract_pdf_text_pages:
  assumes "download (get_media svc file_id) = Some (Inr bs)"
    and "PdfReader w bs = Inr (map Inr ts)"
  shows "extract_pdf_text w svc file_id = Some (Inr (spec_pdf_text ts))"
  using assms by (simp add: extract_pdf_text_def extract_pages_texts strip_pages)

text \<open>
  Claim C3.  For a file of type \<open>application/pdf\<close> whose download ends with the bytes
  \<open>bs\<close>, read by the PDF library as pages with the texts \<open>ts\<close> (any number of pages),
  the content returned, by the method and by the endpoint, is \<open>spec_pdf_text ts\<close>: the
  page texts joined by newlines, with the whitespace at both ends removed.  The source
  appends a newline after every page and strips the result, which is the same text.
\<close>

theorem pdf_content:
  assumes "ensure_service w self = Inr self'"
    and "service self' = Some svc"
    and "files_get svc file_id = Inr file_metadata"
    and "file_metadata (lit ''name'') = Some file_name"
    and "file_metadata (lit ''mimeType'') = Some (lit ''application/pdf'')"
    and "download (get_media svc file_id) = Some (Inr bs)"
    and "PdfReader w bs = Inr (map Inr ts)"
  shows "DriveService_get_file_content w self file_id =
           Some (Inr (FileContent file_id file_name (spec_pdf_text ts)), self') \<and>
         get_file w self file_id =
           Some (Inr (FileContent file_id file_name (spec_pdf_text ts)), self')"
proof -
  have "get_file_content_try w self' file_id =
          Some (Inr (FileContent file_id file_name (spec_pdf_text ts)))"
    using extract_pdf_text_pages [OF assms(6,7)]
    by (simp add: get_file_content_try_dispatch [OF assms(2-5)] lit_eq_iff)
  from get_file_of_content [OF assms(1) this] show ?thesis by simp
qed

theorem pdf_content_witness:
  "get_file example_world fresh_service (lit ''p1'') =
     Some (Inr (FileContent (lit ''p1'') (lit ''paper.pdf'') (lit ''Hello \<newline> World'')),
           ready_service)"
proof -
  have 6: "download (get_media example_api (lit ''p1'')) = Some (Inr [0x25, 0x50, 0x44, 0x46])"
    by (simp add: example_api_def download_chunked)
  have 7: "PdfReader example_world [0x25, 0x50, 0x44, 0x46] =
             Inr (map Inr [lit ''Hello '', lit '' World'' @ newline])"
    by (simp add: example_world_def)
  have 8: "spec_pdf_text [lit ''Hello '', lit '' World'' @ newline] = lit ''Hello \<newline> World''"
    by (simp add: spec_pdf_text_def strip_def isspace_def newline_def lit_def)
  from pdf_content
    [OF ensure_example service_ready files_get_example(2) drive_file_fields(2,3) 6 7]
  show ?thesis by (simp only: 8)
qed

text \<open>
  Claim C1.  For a file whose content type is none of the three native types, is not
  \<open>application/pdf\<close> and does not start with \<open>text/\<close>, the method
  \<open>DriveService.get_file_content\<close> raises an \<open>HTTPException\<close> with status 400 whose
  detail is \<open>Unsupported file type: \<close> followed by the content type.  The endpoint
  catches that exception with every other one and answers with status 500; its detail is
  the text of the caught exception.
\<close>

theorem unsupported_type_response:
  assumes "ensure_service w self = Inr self'"
    and "service self' = Some svc"
    and "files_get svc file_id = Inr file_metadata"
    and "file_metadata (lit ''name'') = Some file_name"
    and "file_metadata (lit ''mimeType'') = Some mime_type"
    and "mime_type \<noteq> lit ''application/vnd.google-apps.document''"
    and "mime_type \<noteq> lit ''application/vnd.google-apps.spreadsheet''"
    and "mime_type \<noteq> lit ''application/vnd.google-apps.presentation''"
    and "mime_type \<noteq> lit ''application/pdf''"
    and "\<not> startswith mime_type (lit ''text/'')"
  shows "DriveService_get_file_content w self file_id =
           Some (Inl (HTTPException 400 (lit ''Unsupported file type: '' @ mime_type)), self') \<and>
         get_file w self file_id =
           Some (Inl (HTTPException 500
             (lib_str w (HTTPException 400 (lit ''Unsupported file type: '' @ mime_type)))),
             self')"
proof -
  have "get_file_content_try w self' file_id =
          Some (Inl (HTTPException 400 (lit ''Unsupported file type: '' @ mime_type)))"
    using assms(6-10) by (simp add: get_file_content_try_dispatch [OF assms(2-5)])
  from get_file_of_content [OF assms(1) this] show ?thesis by simp
qed

theorem unsupported_type_response_witness:
  "get_file example_world fresh_service (lit ''z1'') =
     Some (Inl (HTTPException 500 (lit ''400: Unsupported file type: application/zip'')),
           ready_service)"
proof -
  have 6: "lit ''application/zip'' \<noteq> lit ''application/vnd.google-apps.document''"
    and 7: "lit ''application/zip'' \<noteq> lit ''application/vnd.google-apps.spreadsheet''"
    and 8: "lit ''application/zip'' \<noteq> lit ''application/vnd.google-apps.presentation''"
    and 9: "lit ''application/zip'' \<noteq> lit ''application/pdf''"
    by (simp_all add: lit_eq_iff)
  have 10: "\<not> startswith (lit ''application/zip'') (lit ''text/'')"
    by (simp add: startswith_def lit_def)
  have s: "lib_str example_world
             (HTTPException 400 (lit ''Unsupported file type: '' @ lit ''application/zip'')) =
           lit ''400: Unsupported file type: application/zip''"
    by (simp add: example_world_def str_int_status) (simp add: lit_def)
  from unsupported_type_response
    [OF ensure_example service_ready files_get_example(3) drive_file_fields(2,3) 6 7 8 9 10]
  show ?thesis by (simp only: s)
qed


section \<open>The boundary of the request handlers\<close>

lemma download_loop_first_failure: "d k = Inl e \<Longrightarrow> download_loop d k fh = Some (Inl e)"
  by (subst download_loop.simps) simp

lemma export_google_doc_decode_error:
  assumes "download (export_media svc file_id (lit ''text/plain'')) = Some (Inr bs)"
    and "utf8 bs = None"
  shows "export_google_doc svc file_id = Some (Inl (UnicodeDecodeError bs))"
  using assms by (simp add: export_google_doc_def decode_download_def decode_utf8_def)

text \<open>
  Claim C9.  Whatever exception \<open>e\<close> leaves \<open>DriveService.list_files\<close> or
  \<open>DriveService.get_file_content\<close>, the endpoint turns it into an \<open>HTTPException\<close>
  with status 500 whose detail is \<open>str(e)\<close>, and nothing but an \<open>HTTPException\<close> leaves
  an endpoint.  This holds for the \<open>UnicodeDecodeError\<close> of an export that is not UTF-8.
  A failure is final: when the provider fails on the query the request fails, and a
  call of \<open>next_chunk\<close> that raises ends the download loop with that exception.
\<close>

theorem request_errors_become_responses:
  "(DriveService_list_files w ds = (Inl e, ds')
      \<longrightarrow> list_files w ds = (Inl (HTTPException 500 (str_exc w e)), ds')) \<and>
   (DriveService_get_file_content w ds file_id = Some (Inl e, ds')
      \<longrightarrow> get_file w ds file_id = Some (Inl (HTTPException 500 (str_exc w e)), ds')) \<and>
   (list_files w ds = (Inl e', ds') \<longrightarrow> (\<exists>d. e' = HTTPException 500 d)) \<and>
   (get_file w ds file_id = Some (Inl e', ds') \<longrightarrow> (\<exists>d. e' = HTTPException 500 d)) \<and>
   (ensure_service w ds = Inr ds' \<and> service ds' = Some svc \<and>
    files_get svc file_id = Inr file_metadata \<and>
    file_metadata (lit ''name'') = Some file_name \<and>
    file_metadata (lit ''mimeType'') = Some (lit ''application/vnd.google-apps.document'') \<and>
    download (export_media svc file_id (lit ''text/plain'')) = Some (Inr bs) \<and>
    utf8 bs = None
      \<longrightarrow> get_file w ds file_id =
            Some (Inl (HTTPException 500 (lib_str w (UnicodeDecodeError bs))), ds')) \<and>
   (ensure_service w ds = Inr ds' \<and> service ds' = Some svc \<and>
    files_list svc (query (folder_id ds')) (lit ''files(id, name, mimeType)'') = Inl e
      \<longrightarrow> (\<exists>d. list_files w ds = (Inl (HTTPException 500 d), ds'))) \<and>
   (dl k = Inl e \<longrightarrow> download_loop dl k fh = Some (Inl e))"
proof (intro conjI impI)
  assume "DriveService_list_files w ds = (Inl e, ds')"
  then show "list_files w ds = (Inl (HTTPException 500 (str_exc w e)), ds')"
    by (simp add: list_files_def)
next
  assume "DriveService_get_file_content w ds file_id = Some (Inl e, ds')"
  then show "get_file w ds file_id = Some (Inl (HTTPException 500 (str_exc w e)), ds')"
    by (simp add: get_file_def)
next
  assume a: "list_files w ds = (Inl e', ds')"
  obtain r s where rs: "DriveService_list_files w ds = (r, s)"
    by (cases "DriveService_list_files w ds")
  with a show "\<exists>d. e' = HTTPException 500 d"
    by (cases r) (auto simp: list_files_def)
next
  assume a: "get_file w ds file_id = Some (Inl e', ds')"
  then obtain r s where rs: "DriveService_get_file_content w ds file_id = Some (r, s)"
    by (auto simp: get_file_def)
  with a show "\<exists>d. e' = HTTPException 500 d"
    by (cases r) (auto simp: get_file_def)
next
  assume a: "ensure_service w ds = Inr ds' \<and> service ds' = Some svc \<and>
    files_get svc file_id = Inr file_metadata \<and>
    file_metadata (lit ''name'') = Some file_name \<and>
    file_metadata (lit ''mimeType'') = Some (lit ''application/vnd.google-apps.document'') \<and>
    download (export_media svc file_id (lit ''text/plain'')) = Some (Inr bs) \<and>
    utf8 bs = None"
  then have "export_google_doc svc file_id = Some (Inl (UnicodeDecodeError bs))"
    by (simp add: export_google_doc_decode_error)
  with a have "get_file_content_try w ds' file_id = Some (Inl (UnicodeDecodeError bs))"
    by (simp add: get_file_content_try_dispatch
        [of ds' svc file_id file_metadata file_name "lit ''application/vnd.google-apps.document''"])
  from get_file_of_content(2) [OF _ this, of ds] a
  show "get_file w ds file_id =
      Some (Inl (HTTPException 500 (lib_str w (UnicodeDecodeError bs))), ds')"
    by simp
next
  assume a: "ensure_service w ds = Inr ds' \<and> service ds' = Some svc \<and>
    files_list svc (query (folder_id ds')) (lit ''files(id, name, mimeType)'') = Inl e"
  then have "list_files_try ds' = Inl e"
    by (simp add: list_files_try_def)
  with a show "\<exists>d. list_files w ds = (Inl (HTTPException 500 d), ds')"
    by (cases e) (simp_all add: list_files_def DriveService_list_files_def)
next
  assume "dl k = Inl e"
  then show "download_loop dl k fh = Some (Inl e)"
    by (rule download_loop_first_failure)
qed

lemma list_other_folder:
  "DriveService_list_files example_world \<lparr>service = None, folder_id = lit ''other''\<rparr> =
     (Inl (HTTPException 400 (lit ''Error listing files: File not found: .'')),
      \<lparr>service = Some example_api, folder_id = lit ''other''\<rparr>)"
  by (simp add: DriveService_list_files_def ensure_service_def authenticate_example
      list_files_try_def)
     (simp add: example_api_def query_def lit_eq_iff lit_def)

lemma content_broken_export:
  "DriveService_get_file_content example_world fresh_service (lit ''b1'') =
     Some (Inl (UnicodeDecodeError [0xFF]), ready_service)"
proof -
  have "download (export_media example_api (lit ''b1'') (lit ''text/plain'')) = Some (Inr [0xFF])"
    by (simp add: example_api_def download_chunked)
  moreover have "utf8 [0xFF] = None"
    by simp
  ultimately have "export_google_doc example_api (lit ''b1'') =
      Some (Inl (UnicodeDecodeError [0xFF]))"
    by (rule export_google_doc_decode_error)
  then have "get_file_content_try example_world ready_service (lit ''b1'') =
      Some (Inl (UnicodeDecodeError [0xFF]))"
    by (simp add: get_file_content_try_dispatch
        [OF service_ready files_get_example(4) drive_file_fields(2,3)])
  from get_file_of_content(1) [OF ensure_example this] show ?thesis by simp
qed

theorem request_errors_become_responses_witness:
  "list_files example_world \<lparr>service = None, folder_id = lit ''other''\<rparr> =
     (Inl (HTTPException 500 (lit ''400: Error listing files: File not found: .'')),
      \<lparr>service = Some example_api, folder_id = lit ''other''\<rparr>) \<and>
   get_file example_world fresh_service (lit ''b1'') =
     Some (Inl (HTTPException 500 (lit ''invalid utf-8'')), ready_service) \<and>
   (\<exists>d. HTTPException 500 (lit ''400: Error listing files: File not found: .'') =
      HTTPException 500 d) \<and>
   (\<exists>d. HTTPException 500 (lit ''invalid utf-8'') = HTTPException 500 d) \<and>
   (\<exists>d. list_files example_world \<lparr>service = None, folder_id = lit ''other''\<rparr> =
      (Inl (HTTPException 500 d), \<lparr>service = Some example_api, folder_id = lit ''other''\<rparr>)) \<and>
   download_loop failing_downloader 0 [] = Some (Inl (HttpError (lit ''Service Unavailable'')))"
proof -
  have s: "str_exc example_world
             (HTTPException 400 (lit ''Error listing files: File not found: .'')) =
           lit ''400: Error listing files: File not found: .''"
    by (simp add: example_world_def str_int_status) (simp add: lit_def)
  from request_errors_become_responses [THEN conjunct1, rule_format, OF list_other_folder]
  have 1: "list_files example_world \<lparr>service = None, folder_id = lit ''other''\<rparr> =
     (Inl (HTTPException 500 (lit ''400: Error listing files: File not found: .'')),
      \<lparr>service = Some example_api, folder_id = lit ''other''\<rparr>)"
    by (simp only: s)
  from request_errors_become_responses
    [THEN conjunct2, THEN conjunct1, rule_format, OF content_broken_export]
  have 2: "get_file example_world fresh_service (lit ''b1'') =
     Some (Inl (HTTPException 500 (lit ''invalid utf-8'')), ready_service)"
    by (simp add: example_world_def)
  from request_errors_become_responses
    [THEN conjunct2, THEN conjunct2, THEN conjunct1, rule_format, OF 1]
  have 3: "\<exists>d. HTTPException 500 (lit ''400: Error listing files: File not found: .'') =
      HTTPException 500 d" .
  from request_errors_become_responses
    [THEN conjunct2, THEN conjunct2, THEN conjunct2, THEN conjunct1, rule_format, OF 2]
  have 4: "\<exists>d. HTTPException 500 (lit ''invalid utf-8'') = HTTPException 500 d" .
  have "ensure_service example_world fresh_service = Inr ready_service \<and>
      service ready_service = Some example_api \<and>
      files_get example_api (lit ''b1'') =
        Inr (drive_file ''b1'' ''broken'' ''application/vnd.google-apps.document'') \<and>
      drive_file ''b1'' ''broken'' ''application/vnd.google-apps.document'' (lit ''name'') =
        Some (lit ''broken'') \<and>
      drive_file ''b1'' ''broken'' ''application/vnd.google-apps.document'' (lit ''mimeType'') =
        Some (lit ''application/vnd.google-apps.document'') \<and>
      download (export_media example_api (lit ''b1'') (lit ''text/plain'')) = Some (Inr [0xFF]) \<and>
      utf8 [0xFF] = None"
    by (simp add: ensure_example service_ready files_get_example drive_file_fields)
       (simp add: example_api_def download_chunked)
  from request_errors_become_responses
    [THEN conjunct2, THEN conjunct2, THEN conjunct2, THEN conjunct2, THEN conjunct1,
     rule_format, OF this]
  have 5: "get_file example_world fresh_service (lit ''b1'') =
     Some (Inl (HTTPException 500 (lit ''invalid utf-8'')), ready_service)"
    by (simp add: example_world_def)
  have "ensure_service example_world \<lparr>service = None, folder_id = lit ''other''\<rparr> =
        Inr \<lparr>service = Some example_api, folder_id = lit ''other''\<rparr> \<and>
      service \<lparr>service = Some example_api, folder_id = lit ''other''\<rparr> = Some example_api \<and>
      files_list example_api
        (query (folder_id \<lparr>service = Some example_api, folder_id = lit ''other''\<rparr>))
        (lit ''files(id, name, mimeType)'') = Inl (HttpError (lit ''File not found: .''))"
    by (simp add: ensure_service_def authenticate_example)
       (simp add: example_api_def query_def lit_eq_iff)
  from request_errors_become_responses
    [THEN conjunct2, THEN conjunct2, THEN conjunct2, THEN conjunct2, THEN conjunct2,
     THEN conjunct1, rule_format, OF this]
  have 6: "\<exists>d. list_files example_world \<lparr>service = None, folder_id = lit ''other''\<rparr> =
      (Inl (HTTPException 500 d), \<lparr>service = Some example_api, folder_id = lit ''other''\<rparr>)" .
  have "failing_downloader 0 = Inl (HttpError (lit ''Service Unavailable''))"
    by (simp add: failing_downloader_def)
  from request_errors_become_responses
    [where dl = failing_downloader and k = 0, THEN conjunct2, THEN conjunct2, THEN conjunct2,
     THEN conjunct2, THEN conjunct2, THEN conjunct2, rule_format, OF this]
  have 7: "download_loop failing_downloader 0 [] =
      Some (Inl (HttpError (lit ''Service Unavailable'')))" .
  from 1 2 3 4 6 7 show ?thesis by blast
qed

end
